theory Spec2Isabelle
  imports Complex_Main "HOL-Library.AList"
begin

section \<open>JavaScript values and the host environment\<close>

text \<open>
  The two build plugins (\<^verbatim>\<open>vite-hud-plugin.ts\<close> and the Webpack plugin) read
  \<^verbatim>\<open>package.json\<close> with \<^verbatim>\<open>JSON.parse\<close> and test entries of the parsed object for
  truthiness, so the values of JavaScript are modelled as a datatype. An object is an
  association list read with \<open>map_of\<close>; the order of its keys plays no part in what the
  plugins compute. A number carries the value of the double; \<open>JNaN\<close> is the
  not-a-number value that \<^verbatim>\<open>parseInt\<close> can return.
\<close>

datatype js_value =
    JUndefined
  | JNull
  | JBool bool
  | JNum real
  | JNaN
  | JStr string
  | JArr "js_value list"
  | JObj "(string \<times> js_value) list"

datatype js_error = FsError | SyntaxError | TypeError

text \<open>The truthiness test of \<^verbatim>\<open>if (v)\<close> and \<^verbatim>\<open>v || d\<close>.\<close>

fun truthy :: "js_value \<Rightarrow> bool" where
  "truthy JUndefined = False"
| "truthy JNull = False"
| "truthy (JBool b) = b"
| "truthy (JNum x) = (x \<noteq> 0)"
| "truthy JNaN = False"
| "truthy (JStr s) = (s \<noteq> [])"
| "truthy (JArr _) = True"
| "truthy (JObj _) = True"

text \<open>\<^verbatim>\<open>a || b\<close> on values.\<close>

definition js_or :: "js_value \<Rightarrow> js_value \<Rightarrow> js_value" where
  "js_or a b = (if truthy a then a else b)"

text \<open>The property \<open>k\<close> of an object with the properties \<open>ps\<close>.\<close>

definition obj_get :: "(string \<times> js_value) list \<Rightarrow> string \<Rightarrow> js_value" where
  "obj_get ps k = (case map_of ps k of None \<Rightarrow> JUndefined | Some v \<Rightarrow> v)"

text \<open>
  \<^verbatim>\<open>v.k\<close> and \<^verbatim>\<open>v[k]\<close> for a key \<open>k\<close> that no prototype defines (all keys read by
  the plugins are of this kind): reading from \<^verbatim>\<open>null\<close> or \<^verbatim>\<open>undefined\<close> throws a
  TypeError, an object yields its own property or \<^verbatim>\<open>undefined\<close>, every other value
  yields \<^verbatim>\<open>undefined\<close>.
\<close>

fun js_get :: "js_value \<Rightarrow> string \<Rightarrow> js_error + js_value" where
  "js_get JUndefined k = Inl TypeError"
| "js_get JNull k = Inl TypeError"
| "js_get (JObj ps) k = Inr (obj_get ps k)"
| "js_get _ k = Inr JUndefined"

text \<open>Decimal digits of a natural number, the form of an array index used as a key.\<close>

function show_nat :: "nat \<Rightarrow> string" where
  "show_nat n =
     (if n < 10 then [char_of (48 + n)]
      else show_nat (n div 10) @ [char_of (48 + n mod 10)])"
  by pat_completeness auto
termination
  by (relation "measure id") auto

text \<open>
  The own enumerable properties that an object spread \<^verbatim>\<open>{ ...v }\<close> copies:
  none for \<^verbatim>\<open>undefined\<close>, \<^verbatim>\<open>null\<close>, booleans and numbers, the indexed characters
  of a string, the indexed elements of an array, the properties of an object.
\<close>

fun own_props :: "js_value \<Rightarrow> (string \<times> js_value) list" where
  "own_props (JObj ps) = ps"
| "own_props (JArr vs) = map (\<lambda>i. (show_nat i, vs ! i)) [0..<length vs]"
| "own_props (JStr s) = map (\<lambda>i. (show_nat i, JStr [s ! i])) [0..<length s]"
| "own_props _ = []"

text \<open>
  \<^verbatim>\<open>{ ...a, ...b }\<close>: the properties of the new object are those of \<open>a\<close>,
  overridden by those of \<open>b\<close>.
\<close>

definition js_spread2 :: "js_value \<Rightarrow> js_value \<Rightarrow> (string \<times> js_value) list" where
  "js_spread2 a b = AList.merge (own_props a) (own_props b)"

text \<open>
  What the plugins take from Node: \<^verbatim>\<open>readFileSync\<close> (the content of the file at a
  path, or \<open>None\<close> where it throws), \<^verbatim>\<open>path.resolve\<close> on a root and a file name,
  \<^verbatim>\<open>JSON.parse\<close> (\<open>None\<close> where it throws a SyntaxError), \<^verbatim>\<open>JSON.stringify\<close>, and
  \<^verbatim>\<open>parseInt\<close> with radix 10 on a string.
\<close>

record host =
  fs_read :: "string \<Rightarrow> string option"
  path_resolve :: "string \<Rightarrow> string \<Rightarrow> string"
  json_parse :: "string \<Rightarrow> js_value option"
  json_stringify :: "js_value \<Rightarrow> string"
  parse_int :: "string \<Rightarrow> js_value"

definition readFileSync :: "host \<Rightarrow> string \<Rightarrow> js_error + string" where
  "readFileSync h p = (case fs_read h p of None \<Rightarrow> Inl FsError | Some s \<Rightarrow> Inr s)"

definition JSON_parse :: "host \<Rightarrow> string \<Rightarrow> js_error + js_value" where
  "JSON_parse h s = (case json_parse h s of None \<Rightarrow> Inl SyntaxError | Some v \<Rightarrow> Inr v)"

text \<open>\<^verbatim>\<open>try { body } catch { handler }\<close>.\<close>

definition try_catch :: "js_error + 'a \<Rightarrow> js_error + 'a \<Rightarrow> js_error + 'a" where
  "try_catch body handler = (case body of Inl _ \<Rightarrow> handler | Inr v \<Rightarrow> Inr v)"

section \<open>Package manager detection\<close>

definition lock_files :: "string list" where
  "lock_files = [''bun.lockb'', ''yarn.lock'', ''pnpm-lock.yaml'', ''package-lock.json'']"

definition managers :: "string list" where
  "managers = [''bun'', ''yarn'', ''pnpm'', ''npm'']"

text \<open>
  The \<^verbatim>\<open>for\<close> loop of \<^verbatim>\<open>detectPackageManager\<close>, from index \<open>i\<close>: a lockfile that
  reads returns its manager, one that throws continues with the next index.
\<close>

function detectPackageManager_loop :: "host \<Rightarrow> string \<Rightarrow> nat \<Rightarrow> js_error + string" where
  "detectPackageManager_loop h rootDir i =
     (if i < length lock_files then
        (case readFileSync h (path_resolve h rootDir (lock_files ! i)) of
           Inr _ \<Rightarrow> Inr (managers ! i)
         | Inl _ \<Rightarrow> detectPackageManager_loop h rootDir (Suc i))
      else Inr ''npm'')"
  by pat_completeness auto
termination
  by (relation "measure (\<lambda>(h, rootDir, i). length lock_files - i)") auto

text \<open>The Vite plugin wraps the loop in one more \<^verbatim>\<open>try\<close>; the Webpack plugin does not.\<close>

definition vite_detectPackageManager :: "host \<Rightarrow> string \<Rightarrow> js_error + string" where
  "vite_detectPackageManager h rootDir =
     try_catch (detectPackageManager_loop h rootDir 0) (Inr ''npm'')"

definition webpack_detectPackageManager :: "host \<Rightarrow> string \<Rightarrow> js_error + string" where
  "webpack_detectPackageManager h rootDir = detectPackageManager_loop h rootDir 0"

text \<open>
  The documented priority order, as a table from lockfile to manager, and the manager
  it selects for a project root: the one of the first lockfile that reads.
\<close>

definition lockfile_priority :: "(string \<times> string) list" where
  "lockfile_priority =
     [(''bun.lockb'', ''bun''), (''yarn.lock'', ''yarn''),
      (''pnpm-lock.yaml'', ''pnpm''), (''package-lock.json'', ''npm'')]"

definition lockfile_readable :: "host \<Rightarrow> string \<Rightarrow> string \<Rightarrow> bool" where
  "lockfile_readable h rootDir f = (fs_read h (path_resolve h rootDir f) \<noteq> None)"

definition first_readable_manager :: "host \<Rightarrow> string \<Rightarrow> string" where
  "first_readable_manager h rootDir =
     (case find (\<lambda>(f, m). lockfile_readable h rootDir f) lockfile_priority of
        None \<Rightarrow> ''npm''
      | Some (f, m) \<Rightarrow> m)"

section \<open>Framework detection\<close>

record framework =
  name :: string
  version :: js_value

text \<open>
  The first two statements of \<^verbatim>\<open>detectFramework\<close>, the same in both plugins: read and
  parse \<^verbatim>\<open>package.json\<close>, then spread \<^verbatim>\<open>pkg.dependencies\<close> and
  \<^verbatim>\<open>pkg.devDependencies\<close> into one object. Each step can throw.
\<close>

definition manifest_deps :: "host \<Rightarrow> string \<Rightarrow> js_error + (string \<times> js_value) list" where
  "manifest_deps h rootDir =
     (case readFileSync h (path_resolve h rootDir ''package.json'') of
        Inl e \<Rightarrow> Inl e
      | Inr txt \<Rightarrow>
          (case JSON_parse h txt of
             Inl e \<Rightarrow> Inl e
           | Inr pkg \<Rightarrow>
               (case js_get pkg ''dependencies'' of
                  Inl e \<Rightarrow> Inl e
                | Inr d \<Rightarrow>
                    (case js_get pkg ''devDependencies'' of
                       Inl e \<Rightarrow> Inl e
                     | Inr dd \<Rightarrow> Inr (js_spread2 d dd)))))"

text \<open>The chain of \<^verbatim>\<open>if (deps[...]) return ...\<close> of the Vite plugin.\<close>

definition vite_framework_of :: "(string \<times> js_value) list \<Rightarrow> framework" where
  "vite_framework_of deps =
     (if truthy (obj_get deps ''@sveltejs/kit'')
        then \<lparr>name = ''sveltekit'', version = obj_get deps ''@sveltejs/kit''\<rparr>
      else if truthy (obj_get deps ''nuxt'')
        then \<lparr>name = ''nuxt'', version = obj_get deps ''nuxt''\<rparr>
      else if truthy (obj_get deps ''next'')
        then \<lparr>name = ''nextjs'', version = obj_get deps ''next''\<rparr>
      else if truthy (obj_get deps ''vue'')
        then \<lparr>name = ''vue'', version = obj_get deps ''vue''\<rparr>
      else if truthy (obj_get deps ''react'')
        then \<lparr>name = ''react'', version = obj_get deps ''react''\<rparr>
      else \<lparr>name = ''vite'', version = JStr ''--''\<rparr>)"

definition vite_detectFramework :: "host \<Rightarrow> string \<Rightarrow> js_error + framework" where
  "vite_detectFramework h rootDir =
     try_catch
       (case manifest_deps h rootDir of
          Inl e \<Rightarrow> Inl e
        | Inr deps \<Rightarrow> Inr (vite_framework_of deps))
       (Inr \<lparr>name = ''vite'', version = JStr ''--''\<rparr>)"

text \<open>The same chain in the Webpack plugin, with its own markers and order.\<close>

definition webpack_framework_of :: "(string \<times> js_value) list \<Rightarrow> framework" where
  "webpack_framework_of deps =
     (if truthy (obj_get deps ''react-scripts'')
        then \<lparr>name = ''cra'', version = obj_get deps ''react-scripts''\<rparr>
      else if truthy (obj_get deps ''next'')
        then \<lparr>name = ''nextjs'', version = obj_get deps ''next''\<rparr>
      else if truthy (obj_get deps ''react'')
        then \<lparr>name = ''react'', version = obj_get deps ''react''\<rparr>
      else if truthy (obj_get deps ''vue'')
        then \<lparr>name = ''vue'', version = obj_get deps ''vue''\<rparr>
      else \<lparr>name = ''webpack'', version = JStr ''--''\<rparr>)"

definition webpack_detectFramework :: "host \<Rightarrow> string \<Rightarrow> js_error + framework" where
  "webpack_detectFramework h rootDir =
     try_catch
       (case manifest_deps h rootDir of
          Inl e \<Rightarrow> Inl e
        | Inr deps \<Rightarrow> Inr (webpack_framework_of deps))
       (Inr \<lparr>name = ''webpack'', version = JStr ''--''\<rparr>)"

text \<open>
  The precedence of each variant as a table from dependency key to framework name,
  highest first, and the framework such a table selects: the first marker whose entry
  in the merged dependency object is truthy, with that entry as version.
\<close>

definition vite_markers :: "(string \<times> string) list" where
  "vite_markers =
     [(''@sveltejs/kit'', ''sveltekit''), (''nuxt'', ''nuxt''), (''next'', ''nextjs''),
      (''vue'', ''vue''), (''react'', ''react'')]"

definition webpack_markers :: "(string \<times> string) list" where
  "webpack_markers =
     [(''react-scripts'', ''cra''), (''next'', ''nextjs''), (''react'', ''react''),
      (''vue'', ''vue'')]"

definition declared :: "(string \<times> js_value) list \<Rightarrow> string \<Rightarrow> bool" where
  "declared deps k = truthy (obj_get deps k)"

definition first_marker ::
  "(string \<times> string) list \<Rightarrow> string \<Rightarrow> (string \<times> js_value) list \<Rightarrow> framework" where
  "first_marker markers dflt deps =
     (case find (\<lambda>(k, n). declared deps k) markers of
        None \<Rightarrow> \<lparr>name = dflt, version = JStr ''--''\<rparr>
      | Some (k, n) \<Rightarrow> \<lparr>name = n, version = obj_get deps k\<rparr>)"

section \<open>Runtime detection\<close>

text \<open>What the plugins read from \<^verbatim>\<open>process\<close>.\<close>

record process_info =
  process_version :: string
  process_versions_bun :: js_value
  process_argv :: "string list"
  process_env_PORT :: "string option"
  process_env_HOST :: "string option"
  process_cwd :: string

record runtime_info =
  runtime :: string
  runtime_version :: js_value

definition detectRuntime :: "process_info \<Rightarrow> runtime_info" where
  "detectRuntime p =
     (if truthy (process_versions_bun p)
        then \<lparr>runtime = ''bun'', runtime_version = process_versions_bun p\<rparr>
      else \<lparr>runtime = ''node'', runtime_version = JStr (process_version p)\<rparr>)"

text \<open>
  \<^verbatim>\<open>version.replace(/[\^~]/, '')\<close>: the first caret or tilde of a string is removed;
  on a value that is not a string the call throws a TypeError.
\<close>

fun remove_first_range_char :: "string \<Rightarrow> string" where
  "remove_first_range_char [] = []"
| "remove_first_range_char (c # cs) =
     (if c = CHR 0x5E \<or> c = CHR 0x7E then cs else c # remove_first_range_char cs)"

definition version_replace :: "js_value \<Rightarrow> js_error + js_value" where
  "version_replace v =
     (case v of JStr s \<Rightarrow> Inr (JStr (remove_first_range_char s)) | _ \<Rightarrow> Inl TypeError)"

section \<open>HTTP requests and responses\<close>

record request =
  url :: string

text \<open>
  A \<^verbatim>\<open>ServerResponse\<close>: its status code, the headers set so far and the body passed
  to \<^verbatim>\<open>res.end\<close> (\<open>None\<close> while the response is not ended).
\<close>

record response =
  statusCode :: nat
  headers :: "(string \<times> string) list"
  body :: "string option"

text \<open>A response with status code 200 on which no header is set and which is not ended.\<close>

definition new_response :: response where
  "new_response = \<lparr>statusCode = 200, headers = [], body = None\<rparr>"

definition setHeader :: "string \<Rightarrow> string \<Rightarrow> response \<Rightarrow> response" where
  "setHeader k v res = res\<lparr>headers := AList.update k v (headers res)\<rparr>"

definition res_end :: "string \<Rightarrow> response \<Rightarrow> response" where
  "res_end txt res = res\<lparr>body := Some txt\<rparr>"

text \<open>What a middleware did: the response as it left it, and whether it called \<^verbatim>\<open>next()\<close>.\<close>

record handled =
  res_out :: response
  next_called :: bool

text \<open>\<^verbatim>\<open>Math.floor((Date.now() - startTime) / 1000)\<close>, times in milliseconds.\<close>

definition uptime_seconds :: "int \<Rightarrow> int \<Rightarrow> int" where
  "uptime_seconds now started = \<lfloor>real_of_int (now - started) / 1000\<rfloor>"

section \<open>The Vite plugin\<close>

definition VIRTUAL_MODULE_ID :: string where
  "VIRTUAL_MODULE_ID = ''virtual:hud-diagnostics''"

definition RESOLVED_VIRTUAL_MODULE_ID :: string where
  "RESOLVED_VIRTUAL_MODULE_ID = CHR 0x00 # VIRTUAL_MODULE_ID"

definition EMPTY_DIAGNOSTICS :: js_value where
  "EMPTY_DIAGNOSTICS =
     JObj [(''framework'', JStr ''''),
           (''frameworkVersion'', JStr ''''),
           (''viteVersion'', JStr ''''),
           (''nodeVersion'', JStr ''''),
           (''runtime'', JStr ''''),
           (''runtimeVersion'', JStr ''''),
           (''packageManager'', JStr ''''),
           (''port'', JNum 0),
           (''host'', JStr ''''),
           (''https'', JBool False),
           (''base'', JStr ''/''),
           (''mode'', JStr ''production''),
           (''envPrefix'', JArr []),
           (''plugins'', JArr []),
           (''cliFlags'', JArr []),
           (''moduleCount'', JNum 0),
           (''resolvedAliases'', JObj [])]"

text \<open>The fields of Vite's \<^verbatim>\<open>ResolvedConfig\<close> that \<^verbatim>\<open>configResolved\<close> reads.\<close>

record resolved_config =
  cfg_command :: string
  cfg_root :: string
  cfg_env_VITE_VERSION :: js_value
  cfg_server_port :: js_value
  cfg_server_host :: js_value
  cfg_server_https :: js_value
  cfg_base :: string
  cfg_mode :: string
  cfg_envPrefix :: js_value
  cfg_plugins :: "string list"
  cfg_resolve_alias :: "(js_value \<times> js_value) list"

text \<open>\<^verbatim>\<open>Object.fromEntries\<close> on pairs whose keys are strings: a later pair overrides.\<close>

definition fromEntries :: "(string \<times> js_value) list \<Rightarrow> (string \<times> js_value) list" where
  "fromEntries es = fold (\<lambda>(k, v) ps. AList.update k v ps) es []"

text \<open>The aliases whose \<^verbatim>\<open>find\<close> is a string, as pairs of \<^verbatim>\<open>find\<close> and \<^verbatim>\<open>replacement\<close>.\<close>

definition string_aliases :: "(js_value \<times> js_value) list \<Rightarrow> (string \<times> js_value) list" where
  "string_aliases al =
     List.map_filter (\<lambda>(f, r). case f of JStr k \<Rightarrow> Some (k, r) | _ \<Rightarrow> None) al"

text \<open>The object literal that \<^verbatim>\<open>configResolved\<close> assigns to \<^verbatim>\<open>diagnostics\<close>.\<close>

definition vite_diagnostics :: "host \<Rightarrow> process_info \<Rightarrow> resolved_config \<Rightarrow> js_error + js_value" where
  "vite_diagnostics h p cfg =
     (case vite_detectFramework h (cfg_root cfg) of
        Inl e \<Rightarrow> Inl e
      | Inr fw \<Rightarrow>
          (case version_replace (version fw) of
             Inl e \<Rightarrow> Inl e
           | Inr fv \<Rightarrow>
               (case vite_detectPackageManager h (cfg_root cfg) of
                  Inl e \<Rightarrow> Inl e
                | Inr pm \<Rightarrow>
                    Inr (JObj
                      [(''framework'', JStr (name fw)),
                       (''frameworkVersion'', fv),
                       (''viteVersion'', js_or (cfg_env_VITE_VERSION cfg) (JStr ''--'')),
                       (''nodeVersion'', JStr (process_version p)),
                       (''runtime'', JStr (runtime (detectRuntime p))),
                       (''runtimeVersion'', runtime_version (detectRuntime p)),
                       (''packageManager'', JStr pm),
                       (''port'', js_or (cfg_server_port cfg) (JNum 5173)),
                       (''host'',
                          (case cfg_server_host cfg of
                             JStr s \<Rightarrow> JStr s
                           | v \<Rightarrow> if truthy v then JStr ''0.0.0.0'' else JStr ''localhost'')),
                       (''https'', JBool (truthy (cfg_server_https cfg))),
                       (''base'', JStr (cfg_base cfg)),
                       (''mode'', JStr (cfg_mode cfg)),
                       (''envPrefix'',
                          (case cfg_envPrefix cfg of
                             JArr xs \<Rightarrow> JArr xs
                           | v \<Rightarrow> JArr [js_or v (JStr ''VITE_'')])),
                       (''plugins'', JArr (map JStr (cfg_plugins cfg))),
                       (''cliFlags'', JArr (map JStr (drop 2 (process_argv p)))),
                       (''moduleCount'', JNum 0),
                       (''resolvedAliases'',
                          JObj (fromEntries (string_aliases (cfg_resolve_alias cfg))))]))))"

text \<open>
  The variables that the closure of \<^verbatim>\<open>hudPlugin()\<close> holds. The three counters only
  ever hold counts, so they are natural numbers (a JavaScript number is exact on them
  below \<open>2^53\<close>); times are integer milliseconds, as \<^verbatim>\<open>Date.now()\<close> returns them.
  \<open>interval_set\<close> records the timer of \<^verbatim>\<open>configureServer\<close>. \<open>graph_size\<close> is not a
  variable of the closure: it is \<^verbatim>\<open>server.moduleGraph.idToModuleMap.size\<close>, the one
  value of the dev server that a listener reads.
\<close>

record vite_state =
  config :: "resolved_config option"
  diagnostics :: js_value
  moduleCount :: nat
  openConnections :: nat
  errorCount :: nat
  startTime :: int
  isServe :: bool
  interval_set :: bool
  graph_size :: nat

text \<open>The state when \<^verbatim>\<open>hudPlugin()\<close> is called at time \<open>now\<close>.\<close>

definition hudPlugin :: "int \<Rightarrow> vite_state" where
  "hudPlugin now =
     \<lparr>config = None, diagnostics = JUndefined, moduleCount = 0, openConnections = 0,
      errorCount = 0, startTime = now, isServe = False, interval_set = False,
      graph_size = 0\<rparr>"

definition configResolved ::
  "host \<Rightarrow> process_info \<Rightarrow> resolved_config \<Rightarrow> vite_state \<Rightarrow> js_error + vite_state" where
  "configResolved h p cfg s =
     (case vite_diagnostics h p cfg of
        Inl e \<Rightarrow> Inl e
      | Inr d \<Rightarrow>
          Inr (s\<lparr>isServe := (cfg_command cfg = ''serve''), config := Some cfg,
                 diagnostics := d\<rparr>))"

definition resolveId :: "string \<Rightarrow> string option" where
  "resolveId ident = (if ident = VIRTUAL_MODULE_ID then Some RESOLVED_VIRTUAL_MODULE_ID else None)"

text \<open>\<^verbatim>\<open>load\<close>: the source text of the virtual module, or nothing for any other id.\<close>

definition load :: "host \<Rightarrow> vite_state \<Rightarrow> string \<Rightarrow> string option" where
  "load h s ident =
     (if ident = RESOLVED_VIRTUAL_MODULE_ID then
        Some (''export default ''
              @ json_stringify h (if isServe s then diagnostics s else EMPTY_DIAGNOSTICS)
              @ '';'')
      else None)"

text \<open>
  \<^verbatim>\<open>configureServer\<close> sets the timer and registers the listeners and the middleware.
  The listeners are the cases of \<open>vite_step\<close>: the timer calling
  \<^verbatim>\<open>updateModuleCount\<close>, which copies the current size of the module graph, the HTTP
  server closing, a WebSocket connection and a WebSocket error. Two more events have no
  listener: a WebSocket client closing, and the module graph changing to hold \<open>n\<close>
  modules, which only the next call of \<^verbatim>\<open>updateModuleCount\<close> observes. An event is one
  call of its listener. The runtime delivers \<open>Interval_tick\<close> only while the timer is
  set; the step function accepts it in every state, so a property of all traces covers
  those that can occur.
\<close>

definition configureServer :: "vite_state \<Rightarrow> vite_state" where
  "configureServer s = s\<lparr>interval_set := True\<rparr>"

datatype vite_event =
    Interval_tick
  | Http_close
  | Ws_connection
  | Ws_error
  | Ws_client_close
  | Graph_change nat

fun vite_step :: "vite_event \<Rightarrow> vite_state \<Rightarrow> vite_state" where
  "vite_step Interval_tick s = s\<lparr>moduleCount := graph_size s\<rparr>"
| "vite_step Http_close s = s\<lparr>interval_set := False\<rparr>"
| "vite_step Ws_connection s = s\<lparr>openConnections := openConnections s + 1\<rparr>"
| "vite_step Ws_error s = s\<lparr>errorCount := errorCount s + 1\<rparr>"
| "vite_step Ws_client_close s = s"
| "vite_step (Graph_change n) s = s\<lparr>graph_size := n\<rparr>"

definition vite_run :: "vite_event list \<Rightarrow> vite_state \<Rightarrow> vite_state" where
  "vite_run evs s = fold vite_step evs s"

text \<open>The object that the \<^verbatim>\<open>/__hud\<close> middleware serialises at time \<open>now\<close>.\<close>

definition vite_hud_object :: "vite_state \<Rightarrow> int \<Rightarrow> (string \<times> js_value) list" where
  "vite_hud_object s now =
     [(''moduleCount'', JNum (of_nat (moduleCount s))),
      (''openConnections'', JNum (of_nat (openConnections s))),
      (''errorCount'', JNum (of_nat (errorCount s))),
      (''uptime'', JNum (of_int (uptime_seconds now (startTime s))))]"

definition vite_middleware ::
  "host \<Rightarrow> vite_state \<Rightarrow> int \<Rightarrow> request \<Rightarrow> response \<Rightarrow> handled" where
  "vite_middleware h s now req res =
     (if url req = ''/__hud'' then
        \<lparr>res_out =
           res_end (json_stringify h (JObj (vite_hud_object s now)))
             (setHeader ''Cache-Control'' ''no-store''
               (setHeader ''Content-Type'' ''application/json'' res)),
         next_called = False\<rparr>
      else \<lparr>res_out = res, next_called = True\<rparr>)"

section \<open>The Webpack plugin\<close>

record dev_server =
  ds_port :: js_value
  ds_host :: js_value
  ds_https :: js_value

text \<open>
  The parts of a Webpack \<^verbatim>\<open>Compiler\<close> that \<^verbatim>\<open>apply\<close> reads (\<open>output_publicPath\<close> is
  \<^verbatim>\<open>options.output?.publicPath?.toString()\<close>, \<open>options_plugins\<close> the constructor name
  of each plugin) and the two it writes: the globals defined through
  \<^verbatim>\<open>DefinePlugin\<close> and the names tapped into the \<^verbatim>\<open>done\<close> hook.
\<close>

record compiler =
  options_mode :: js_value
  compiler_context :: string
  webpack_version :: js_value
  output_publicPath :: "string option"
  options_plugins :: "js_value list option"
  options_devServer :: "dev_server option"
  definitions :: "(string \<times> string) list"
  done_taps :: "string list"

text \<open>\<^verbatim>\<open>s || d\<close> on a string that may be undefined.\<close>

definition string_or :: "string option \<Rightarrow> string \<Rightarrow> string" where
  "string_or s d = (case s of None \<Rightarrow> d | Some x \<Rightarrow> if x \<noteq> [] then x else d)"

text \<open>The \<^verbatim>\<open>diagnostics\<close> object of \<^verbatim>\<open>apply\<close> before the \<^verbatim>\<open>devServer\<close> overrides.\<close>

definition webpack_diagnostics ::
  "host \<Rightarrow> process_info \<Rightarrow> compiler \<Rightarrow> js_error + (string \<times> js_value) list" where
  "webpack_diagnostics h p c =
     (let rootDir = (if compiler_context c \<noteq> [] then compiler_context c else process_cwd p) in
      case webpack_detectFramework h rootDir of
        Inl e \<Rightarrow> Inl e
      | Inr fw \<Rightarrow>
          (case version_replace (version fw) of
             Inl e \<Rightarrow> Inl e
           | Inr fv \<Rightarrow>
               (case webpack_detectPackageManager h rootDir of
                  Inl e \<Rightarrow> Inl e
                | Inr pm \<Rightarrow>
                    Inr [(''framework'', JStr (name fw)),
                         (''frameworkVersion'', fv),
                         (''webpackVersion'', js_or (webpack_version c) (JStr ''--'')),
                         (''nodeVersion'', JStr (process_version p)),
                         (''runtime'', JStr (runtime (detectRuntime p))),
                         (''runtimeVersion'', runtime_version (detectRuntime p)),
                         (''packageManager'', JStr pm),
                         (''port'', parse_int h (string_or (process_env_PORT p) ''3000'')),
                         (''host'', JStr (string_or (process_env_HOST p) ''localhost'')),
                         (''https'', JBool False),
                         (''base'', JStr (string_or (output_publicPath c) ''/'')),
                         (''mode'', JStr ''development''),
                         (''plugins'',
                            (case options_plugins c of
                               None \<Rightarrow> JArr []
                             | Some ns \<Rightarrow>
                                 JArr (filter (\<lambda>n. truthy n \<and> n \<noteq> JStr ''Object'') ns))),
                         (''cliFlags'', JArr (map JStr (drop 2 (process_argv p))))])))"

text \<open>The three assignments guarded by \<^verbatim>\<open>if (devServer)\<close>.\<close>

definition devServer_overrides ::
  "dev_server option \<Rightarrow> (string \<times> js_value) list \<Rightarrow> (string \<times> js_value) list" where
  "devServer_overrides dso d =
     (case dso of
        None \<Rightarrow> d
      | Some ds \<Rightarrow>
          (let d1 = (if truthy (ds_port ds) then AList.update ''port'' (ds_port ds) d else d);
               d2 = (if truthy (ds_host ds) then AList.update ''host'' (ds_host ds) d1 else d1)
           in if truthy (ds_https ds) then AList.update ''https'' (JBool True) d2 else d2))"

text \<open>
  \<^verbatim>\<open>HudWebpackPlugin.apply\<close>: outside development mode it returns at once; in
  development mode it defines the global and taps the \<^verbatim>\<open>done\<close> hook.
\<close>

definition HudWebpackPlugin_apply ::
  "host \<Rightarrow> process_info \<Rightarrow> compiler \<Rightarrow> js_error + compiler" where
  "HudWebpackPlugin_apply h p c =
     (if options_mode c \<noteq> JStr ''development'' then Inr c
      else
        (case webpack_diagnostics h p c of
           Inl e \<Rightarrow> Inl e
         | Inr d \<Rightarrow>
             Inr (c\<lparr>definitions :=
                      AList.update ''__HUD_DIAGNOSTICS__''
                        (json_stringify h (JObj (devServer_overrides (options_devServer c) d)))
                        (definitions c),
                    done_taps := done_taps c @ [''HudWebpackPlugin'']\<rparr>)))"

text \<open>The module-level variables of the Webpack plugin, the module loaded at \<open>now\<close>.\<close>

record webpack_state =
  wp_moduleCount :: nat
  wp_errorCount :: nat
  wp_startTime :: int

definition webpack_init :: "int \<Rightarrow> webpack_state" where
  "webpack_init now = \<lparr>wp_moduleCount = 0, wp_errorCount = 0, wp_startTime = now\<rparr>"

text \<open>What \<^verbatim>\<open>stats.toJson\<close> gives the \<^verbatim>\<open>done\<close> callback.\<close>

record stats_info =
  info_modules :: "js_value list option"
  info_errors :: "js_value list option"

text \<open>\<^verbatim>\<open>xs?.length || 0\<close>.\<close>

definition length_or_0 :: "js_value list option \<Rightarrow> nat" where
  "length_or_0 xs = (case xs of None \<Rightarrow> 0 | Some l \<Rightarrow> if length l \<noteq> 0 then length l else 0)"

definition done_callback :: "stats_info \<Rightarrow> webpack_state \<Rightarrow> webpack_state" where
  "done_callback info st =
     st\<lparr>wp_moduleCount := length_or_0 (info_modules info),
        wp_errorCount := length_or_0 (info_errors info)\<rparr>"

definition webpack_run :: "stats_info list \<Rightarrow> webpack_state \<Rightarrow> webpack_state" where
  "webpack_run infos st = fold done_callback infos st"

definition webpack_hud_object :: "webpack_state \<Rightarrow> int \<Rightarrow> (string \<times> js_value) list" where
  "webpack_hud_object st now =
     [(''moduleCount'', JNum (of_nat (wp_moduleCount st))),
      (''openConnections'', JNum 0),
      (''errorCount'', JNum (of_nat (wp_errorCount st))),
      (''uptime'', JNum (of_int (uptime_seconds now (wp_startTime st))))]"

definition hudDevServerMiddleware ::
  "host \<Rightarrow> webpack_state \<Rightarrow> int \<Rightarrow> request \<Rightarrow> response \<Rightarrow> handled" where
  "hudDevServerMiddleware h st now req res =
     (if url req = ''/__hud'' then
        \<lparr>res_out =
           res_end (json_stringify h (JObj (webpack_hud_object st now)))
             (setHeader ''Cache-Control'' ''no-store''
               (setHeader ''Content-Type'' ''application/json'' res)),
         next_called = False\<rparr>
      else \<lparr>res_out = res, next_called = True\<rparr>)"

section \<open>The endpoint contract\<close>

text \<open>
  The two outcomes of a handler: a reply, which leaves the status code of the response
  \<open>res\<close> as it found it, sets the JSON content type, disables caching, ends the response
  with the serialised object \<open>obj\<close> and does not call the next handler; and a
  pass-through, where the response is left as it was and the next handler is called.
\<close>

definition hud_reply ::
  "host \<Rightarrow> (string \<times> js_value) list \<Rightarrow> response \<Rightarrow> handled \<Rightarrow> bool" where
  "hud_reply h obj res r =
     (statusCode (res_out r) = statusCode res \<and>
      map_of (headers (res_out r)) ''Content-Type'' = Some ''application/json'' \<and>
      map_of (headers (res_out r)) ''Cache-Control'' = Some ''no-store'' \<and>
      body (res_out r) = Some (json_stringify h (JObj obj)) \<and>
      \<not> next_called r)"

definition passed_through :: "response \<Rightarrow> handled \<Rightarrow> bool" where
  "passed_through res r = (res_out r = res \<and> next_called r)"

definition hud_fields :: "string list" where
  "hud_fields = [''moduleCount'', ''openConnections'', ''errorCount'', ''uptime'']"

text \<open>
  The path of a request target in the usual sense of the word, which the handlers do
  not compute: the part before the first question mark.
\<close>

definition request_path :: "string \<Rightarrow> string" where
  "request_path u = takeWhile (\<lambda>c. c \<noteq> CHR 0x3F) u"

section \<open>Example inputs\<close>

text \<open>
  A host for examples: \<open>files\<close> gives the content of each readable path, \<open>parses\<close>
  the value of each text that \<^verbatim>\<open>JSON.parse\<close> accepts.
\<close>

definition project_host :: "(string \<times> string) list \<Rightarrow> (string \<times> js_value) list \<Rightarrow> host" where
  "project_host files parses =
     \<lparr>fs_read = map_of files,
      path_resolve = (\<lambda>r f. r @ ''/'' @ f),
      json_parse = map_of parses,
      json_stringify = (\<lambda>v. ''[json]''),
      parse_int = (\<lambda>t. if t = ''3000'' then JNum 3000 else JNaN)\<rparr>"

text \<open>
  A project at \<^verbatim>\<open>/app\<close> whose \<^verbatim>\<open>package.json\<close> declares \<^verbatim>\<open>nuxt\<close> and \<^verbatim>\<open>vue\<close> and which
  has a \<^verbatim>\<open>yarn.lock\<close> and a \<^verbatim>\<open>package-lock.json\<close>.
\<close>

definition nuxt_manifest :: js_value where
  "nuxt_manifest =
     JObj [(''name'', JStr ''app''),
           (''dependencies'', JObj [(''nuxt'', JStr ''^3.11.0''), (''vue'', JStr ''^3.4.0'')])]"

definition nuxt_project :: host where
  "nuxt_project =
     project_host
       [(''/app/package.json'', ''nuxt manifest''), (''/app/yarn.lock'', ''lock''),
        (''/app/package-lock.json'', ''lock'')]
       [(''nuxt manifest'', nuxt_manifest)]"

text \<open>The same project with \<^verbatim>\<open>nuxt\<close> declared at any version: \<^verbatim>\<open>"nuxt": ""\<close>.\<close>

definition unpinned_nuxt_manifest :: js_value where
  "unpinned_nuxt_manifest =
     JObj [(''name'', JStr ''app''),
           (''dependencies'', JObj [(''nuxt'', JStr []), (''vue'', JStr ''^3.4.0'')])]"

definition unpinned_nuxt_project :: host where
  "unpinned_nuxt_project =
     project_host
       [(''/app/package.json'', ''unpinned nuxt manifest''), (''/app/yarn.lock'', ''lock'')]
       [(''unpinned nuxt manifest'', unpinned_nuxt_manifest)]"

text \<open>
  A project that declares \<^verbatim>\<open>next\<close> and \<^verbatim>\<open>react\<close>, the latter in both dependency
  sections.
\<close>

definition next_manifest :: js_value where
  "next_manifest =
     JObj [(''dependencies'', JObj [(''next'', JStr ''14.1.0''), (''react'', JStr ''^18.2.0'')]),
           (''devDependencies'', JObj [(''react'', JStr ''^18.3.0'')])]"

definition next_project :: host where
  "next_project =
     project_host
       [(''/app/package.json'', ''next manifest''), (''/app/pnpm-lock.yaml'', ''lock'')]
       [(''next manifest'', next_manifest)]"

text \<open>A directory with no readable file, and one whose \<^verbatim>\<open>package.json\<close> does not parse.\<close>

definition empty_project :: host where
  "empty_project = project_host [] []"

definition broken_project :: host where
  "broken_project = project_host [(''/app/package.json'', ''{ not json'')] []"

definition node_process :: process_info where
  "node_process =
     \<lparr>process_version = ''v20.11.0'', process_versions_bun = JUndefined,
      process_argv = [''node'', ''vite'', ''build''], process_env_PORT = None,
      process_env_HOST = None, process_cwd = ''/app''\<rparr>"

definition build_config :: resolved_config where
  "build_config =
     \<lparr>cfg_command = ''build'', cfg_root = ''/app'', cfg_env_VITE_VERSION = JUndefined,
      cfg_server_port = JUndefined, cfg_server_host = JUndefined,
      cfg_server_https = JUndefined, cfg_base = ''/'', cfg_mode = ''production'',
      cfg_envPrefix = JStr ''VITE_'', cfg_plugins = [''vite-hud-plugin''],
      cfg_resolve_alias = []\<rparr>"

text \<open>The state of the Vite plugin once \<^verbatim>\<open>configResolved\<close> has run on that build.\<close>

definition nuxt_build_state :: vite_state where
  "nuxt_build_state =
     \<lparr>config = Some build_config,
      diagnostics =
        JObj [(''framework'', JStr ''nuxt''),
              (''frameworkVersion'', JStr ''3.11.0''),
              (''viteVersion'', JStr ''--''),
              (''nodeVersion'', JStr ''v20.11.0''),
              (''runtime'', JStr ''node''),
              (''runtimeVersion'', JStr ''v20.11.0''),
              (''packageManager'', JStr ''yarn''),
              (''port'', JNum 5173),
              (''host'', JStr ''localhost''),
              (''https'', JBool False),
              (''base'', JStr ''/''),
              (''mode'', JStr ''production''),
              (''envPrefix'', JArr [JStr ''VITE_'']),
              (''plugins'', JArr [JStr ''vite-hud-plugin'']),
              (''cliFlags'', JArr [JStr ''build'']),
              (''moduleCount'', JNum 0),
              (''resolvedAliases'', JObj [])],
      moduleCount = 0, openConnections = 0, errorCount = 0, startTime = 0,
      isServe = False, interval_set = False, graph_size = 0\<rparr>"

definition production_compiler :: compiler where
  "production_compiler =
     \<lparr>options_mode = JStr ''production'', compiler_context = ''/app'',
      webpack_version = JStr ''5.90.0'', output_publicPath = None,
      options_plugins = Some [JStr ''HudWebpackPlugin''], options_devServer = None,
      definitions = [], done_taps = []\<rparr>"

text \<open>
  Compilations: one of two modules that reports a single error, one of three modules and
  one of two modules that report none.
\<close>

definition failing_build :: stats_info where
  "failing_build =
     \<lparr>info_modules = Some [JObj [(''id'', JNum 1)], JObj [(''id'', JNum 2)]],
      info_errors = Some [JObj [(''message'', JStr ''Module not found'')]]\<rparr>"

definition larger_build :: stats_info where
  "larger_build =
     \<lparr>info_modules =
        Some [JObj [(''id'', JNum 1)], JObj [(''id'', JNum 2)], JObj [(''id'', JNum 3)]],
      info_errors = Some []\<rparr>"

definition clean_build :: stats_info where
  "clean_build =
     \<lparr>info_modules = Some [JObj [(''id'', JNum 1)], JObj [(''id'', JNum 2)]],
      info_errors = Some []\<rparr>"

section \<open>Properties\<close>

lemma detectPackageManager_loop_0:
  "detectPackageManager_loop h rootDir 0 = Inr (first_readable_manager h rootDir)"
  by (simp add: first_readable_manager_def lockfile_priority_def lockfile_readable_def
      lock_files_def managers_def readFileSync_def split: option.splits)

text \<open>
  C5: for every combination of readable lockfiles in the project root, both variants of
  \<^verbatim>\<open>detectPackageManager\<close> return the manager of the first readable lockfile in the
  order bun.lockb, yarn.lock, pnpm-lock.yaml, package-lock.json, and \<^verbatim>\<open>'npm'\<close> when
  none of them is readable.
\<close>

theorem detectPackageManager_priority:
  "vite_detectPackageManager h rootDir = Inr (first_readable_manager h rootDir) \<and>
   webpack_detectPackageManager h rootDir = Inr (first_readable_manager h rootDir)"
  unfolding vite_detectPackageManager_def webpack_detectPackageManager_def
    detectPackageManager_loop_0 try_catch_def
  by simp

subsection \<open>Traces of events\<close>

lemma vite_run_Nil: "vite_run [] s = s"
  by (simp add: vite_run_def)

lemma vite_run_Cons: "vite_run (e # evs) s = vite_run evs (vite_step e s)"
  by (simp add: vite_run_def)

lemma vite_run_append: "vite_run (xs @ ys) s = vite_run ys (vite_run xs s)"
  by (simp add: vite_run_def)

lemma errorCount_vite_run:
  "errorCount (vite_run evs s) = errorCount s + count_list evs Ws_error"
proof (induction evs arbitrary: s)
  case Nil
  show ?case by (simp add: vite_run_Nil)
next
  case (Cons e evs)
  show ?case by (cases e) (simp_all add: vite_run_Cons Cons.IH)
qed

lemma openConnections_vite_run:
  "openConnections (vite_run evs s) = openConnections s + count_list evs Ws_connection"
proof (induction evs arbitrary: s)
  case Nil
  show ?case by (simp add: vite_run_Nil)
next
  case (Cons e evs)
  show ?case by (cases e) (simp_all add: vite_run_Cons Cons.IH)
qed


lemma vite_run_snoc: "vite_run (evs @ [e]) s = vite_step e (vite_run evs s)"
  by (simp add: vite_run_def)

lemma moduleCount_without_tick:
  "Interval_tick \<notin> set evs \<Longrightarrow> moduleCount (vite_run evs s) = moduleCount s"
proof (induction evs arbitrary: s)
  case Nil
  show ?case by (simp add: vite_run_Nil)
next
  case (Cons e evs)
  then show ?case by (cases e) (simp_all add: vite_run_Cons)
qed

lemma graph_size_without_change:
  "\<forall>n. Graph_change n \<notin> set evs \<Longrightarrow> graph_size (vite_run evs s) = graph_size s"
proof (induction evs arbitrary: s)
  case Nil
  show ?case by (simp add: vite_run_Nil)
next
  case (Cons e evs)
  then show ?case by (cases e) (auto simp: vite_run_Cons)
qed

lemma webpack_run_snoc:
  "webpack_run (infos @ [info]) st = done_callback info (webpack_run infos st)"
  by (simp add: webpack_run_def)

lemma webpack_run_last:
  "infos \<noteq> [] \<Longrightarrow> webpack_run infos st = done_callback (last infos) (webpack_run (butlast infos) st)"
  using webpack_run_snoc [of "butlast infos" "last infos" st] by simp


lemma length_or_0_Some: "length_or_0 (Some l) = length l"
  by (simp add: length_or_0_def)

subsection \<open>The reported fields\<close>

lemma vite_hud_object_fields:
  "obj_get (vite_hud_object s now) ''moduleCount'' = JNum (of_nat (moduleCount s))"
  "obj_get (vite_hud_object s now) ''openConnections'' = JNum (of_nat (openConnections s))"
  "obj_get (vite_hud_object s now) ''errorCount'' = JNum (of_nat (errorCount s))"
  "obj_get (vite_hud_object s now) ''uptime'' = JNum (of_int (uptime_seconds now (startTime s)))"
  by (simp_all add: vite_hud_object_def obj_get_def)

lemma webpack_hud_object_fields:
  "obj_get (webpack_hud_object st now) ''moduleCount'' = JNum (of_nat (wp_moduleCount st))"
  "obj_get (webpack_hud_object st now) ''openConnections'' = JNum 0"
  "obj_get (webpack_hud_object st now) ''errorCount'' = JNum (of_nat (wp_errorCount st))"
  "obj_get (webpack_hud_object st now) ''uptime'' = JNum (of_int (uptime_seconds now (wp_startTime st)))"
  by (simp_all add: webpack_hud_object_def obj_get_def)


subsection \<open>Counters\<close>

text \<open>
  C1, as the code has it. In the Vite plugin every error event adds one to
  \<^verbatim>\<open>errorCount\<close>: after a trace the counter is its old value plus the number of error
  events in the trace, it never decreases along a trace, and from a fresh plugin the
  \<^verbatim>\<open>/__hud\<close> object reports exactly the number of error events. In the Webpack plugin
  the \<^verbatim>\<open>done\<close> callback overwrites \<^verbatim>\<open>errorCount\<close>: the \<^verbatim>\<open>/__hud\<close> object reports the
  number of errors of the latest compilation.
\<close>

theorem errorCount_by_variant:
  "errorCount (vite_run evs s) = errorCount s + count_list evs Ws_error \<and>
   errorCount (vite_run evs1 s) \<le> errorCount (vite_run (evs1 @ evs2) s) \<and>
   obj_get (vite_hud_object (vite_run evs (configureServer (hudPlugin t0))) now) ''errorCount''
     = JNum (of_nat (count_list evs Ws_error)) \<and>
   obj_get (webpack_hud_object (webpack_run (infos @ [info]) st) now) ''errorCount''
     = JNum (of_nat (length_or_0 (info_errors info)))"
proof -
  have a: "errorCount (vite_run evs s) = errorCount s + count_list evs Ws_error"
    by (rule errorCount_vite_run)
  have b: "errorCount (vite_run evs1 s) \<le> errorCount (vite_run (evs1 @ evs2) s)"
    by (simp add: vite_run_append errorCount_vite_run)
  have c: "obj_get (vite_hud_object (vite_run evs (configureServer (hudPlugin t0))) now)
             ''errorCount'' = JNum (of_nat (count_list evs Ws_error))"
    by (simp add: vite_hud_object_fields errorCount_vite_run configureServer_def hudPlugin_def)
  have d: "obj_get (webpack_hud_object (webpack_run (infos @ [info]) st) now) ''errorCount''
             = JNum (of_nat (length_or_0 (info_errors info)))"
    by (simp add: webpack_hud_object_fields webpack_run_snoc done_callback_def)
  from a b c d show ?thesis by blast
qed

text \<open>
  C1 as stated fails in the Webpack variant: after two compilations that report one
  error each the endpoint object reports 1, not 2, and after a further compilation
  without errors it reports 0, so the value has decreased.
\<close>

theorem webpack_errorCount_counterexample:
  "obj_get (webpack_hud_object (webpack_run [failing_build, failing_build] (webpack_init 0)) 0)
     ''errorCount'' = JNum 1 \<and>
   obj_get (webpack_hud_object
              (webpack_run [failing_build, failing_build, clean_build] (webpack_init 0)) 0)
     ''errorCount'' = JNum 0"
  by (simp add: webpack_hud_object_fields webpack_run_def done_callback_def webpack_init_def
      failing_build_def clean_build_def length_or_0_def)

text \<open>
  C6, as the code has it. The Vite plugin has no listener for changes of the module
  graph: \<^verbatim>\<open>moduleCount\<close> is a sample that the polling timer takes. A tick overwrites
  the counter with the size the graph has at that moment, which is the count of the
  last change when no change follows it before the tick; events after the last tick,
  changes of the graph among them, leave the reported value as it was. In the Webpack
  plugin every \<^verbatim>\<open>done\<close> event overwrites the counter, so after the compilations
  \<open>info1 .. infoN\<close> the \<^verbatim>\<open>/__hud\<close> object reports the number of modules of the last.
\<close>

theorem moduleCount_last_write_wins:
  "obj_get (vite_hud_object (vite_run (evs @ [Interval_tick]) s) now) ''moduleCount''
     = JNum (of_nat (graph_size (vite_run evs s))) \<and>
   graph_size (vite_run (evs @ [Graph_change n]) s) = n \<and>
   ((\<forall>n. Graph_change n \<notin> set post) \<longrightarrow>
      graph_size (vite_run (pre @ post) s) = graph_size (vite_run pre s)) \<and>
   (Interval_tick \<notin> set post \<longrightarrow>
      obj_get (vite_hud_object (vite_run (pre @ post) s) now) ''moduleCount''
        = obj_get (vite_hud_object (vite_run pre s) now) ''moduleCount'') \<and>
   (infos \<noteq> [] \<and> info_modules (last infos) = Some ms \<longrightarrow>
      obj_get (webpack_hud_object (webpack_run infos st) now) ''moduleCount''
        = JNum (of_nat (length ms)))"
proof -
  have a: "obj_get (vite_hud_object (vite_run (evs @ [Interval_tick]) s) now) ''moduleCount''
     = JNum (of_nat (graph_size (vite_run evs s)))"
    by (simp add: vite_hud_object_fields vite_run_snoc)
  have b: "graph_size (vite_run (evs @ [Graph_change n]) s) = n"
    by (simp add: vite_run_snoc)
  have c: "(\<forall>n. Graph_change n \<notin> set post) \<longrightarrow>
      graph_size (vite_run (pre @ post) s) = graph_size (vite_run pre s)"
    by (simp add: vite_run_append graph_size_without_change)
  have d: "Interval_tick \<notin> set post \<longrightarrow>
      obj_get (vite_hud_object (vite_run (pre @ post) s) now) ''moduleCount''
        = obj_get (vite_hud_object (vite_run pre s) now) ''moduleCount''"
    by (simp add: vite_hud_object_fields vite_run_append moduleCount_without_tick)
  have w: "infos \<noteq> [] \<Longrightarrow> info_modules (last infos) = Some ms \<Longrightarrow>
      obj_get (webpack_hud_object (webpack_run infos st) now) ''moduleCount''
        = JNum (of_nat (length ms))"
    by (simp add: webpack_hud_object_fields webpack_run_last done_callback_def
        length_or_0_Some)
  from a b c d w show ?thesis by blast
qed

theorem moduleCount_last_write_wins_witness:
  "obj_get (vite_hud_object
             (vite_run ([Graph_change 10, Ws_connection, Graph_change 25] @ [Interval_tick])
                (configureServer (hudPlugin 0))) 0) ''moduleCount'' = JNum 25 \<and>
   Interval_tick \<notin> set [Graph_change 40, Ws_error] \<and>
   obj_get (vite_hud_object
             (vite_run ([Graph_change 10, Ws_connection, Graph_change 25, Interval_tick]
                          @ [Graph_change 40, Ws_error])
                (configureServer (hudPlugin 0))) 0) ''moduleCount'' = JNum 25 \<and>
   [failing_build, larger_build] \<noteq> [] \<and>
   info_modules (last [failing_build, larger_build])
     = Some [JObj [(''id'', JNum 1)], JObj [(''id'', JNum 2)], JObj [(''id'', JNum 3)]] \<and>
   obj_get (webpack_hud_object (webpack_run [failing_build, larger_build] (webpack_init 0)) 0)
     ''moduleCount'' = JNum 3"
proof -
  have g: "graph_size (vite_run [Graph_change 10, Ws_connection, Graph_change 25]
             (configureServer (hudPlugin 0))) = 25"
    by (simp add: vite_run_def)
  have t: "Interval_tick \<notin> set [Graph_change 40, Ws_error]"
    by simp
  have m: "info_modules (last [failing_build, larger_build])
     = Some [JObj [(''id'', JNum 1)], JObj [(''id'', JNum 2)], JObj [(''id'', JNum 3)]]"
    by (simp add: larger_build_def)
  from moduleCount_last_write_wins
         [where evs = "[Graph_change 10, Ws_connection, Graph_change 25]"
            and s = "configureServer (hudPlugin 0)" and now = 0
            and pre = "[Graph_change 10, Ws_connection, Graph_change 25, Interval_tick]"
            and post = "[Graph_change 40, Ws_error]"
            and infos = "[failing_build, larger_build]"
            and ms = "[JObj [(''id'', JNum 1)], JObj [(''id'', JNum 2)], JObj [(''id'', JNum 3)]]"
            and st = "webpack_init 0"]
       g t m
  show ?thesis by simp
qed

text \<open>
  C6 as stated fails in the Vite variant: after the module graph has changed three
  times, to 10, 25 and 40 modules, and before the timer has ticked, the \<^verbatim>\<open>/__hud\<close>
  object reports 0, not 40.
\<close>

theorem vite_moduleCount_counterexample:
  "graph_size (vite_run [Graph_change 10, Graph_change 25, Graph_change 40]
                 (configureServer (hudPlugin 0))) = 40 \<and>
   obj_get (vite_hud_object
              (vite_run [Graph_change 10, Graph_change 25, Graph_change 40]
                 (configureServer (hudPlugin 0))) 0) ''moduleCount'' = JNum 0"
  by (simp add: vite_hud_object_fields vite_run_def configureServer_def hudPlugin_def)


text \<open>
  C9: in the Vite plugin a connection event adds one to \<^verbatim>\<open>openConnections\<close> and no
  event lowers it: the counter does not decrease in any step nor along any trace of
  connection, close and error events, and the \<^verbatim>\<open>/__hud\<close> object reports the old value
  plus the number of connection events.
\<close>

theorem openConnections_never_decreases:
  "openConnections (vite_step Ws_connection s) = openConnections s + 1 \<and>
   openConnections s \<le> openConnections (vite_step e s) \<and>
   openConnections (vite_run evs1 s) \<le> openConnections (vite_run (evs1 @ evs2) s) \<and>
   obj_get (vite_hud_object (vite_run evs s) now) ''openConnections''
     = JNum (of_nat (openConnections s + count_list evs Ws_connection))"
proof -
  have a: "openConnections (vite_step Ws_connection s) = openConnections s + 1"
    by simp
  have b: "openConnections s \<le> openConnections (vite_step e s)"
    by (cases e) simp_all
  have c: "openConnections (vite_run evs1 s) \<le> openConnections (vite_run (evs1 @ evs2) s)"
    by (simp add: vite_run_append openConnections_vite_run)
  have d: "obj_get (vite_hud_object (vite_run evs s) now) ''openConnections''
     = JNum (of_nat (openConnections s + count_list evs Ws_connection))"
    by (simp add: vite_hud_object_fields openConnections_vite_run)
  from a b c d show ?thesis by blast
qed

text \<open>
  C10: the object that the Webpack middleware serialises has \<^verbatim>\<open>openConnections\<close> equal
  to 0 in every state of the counters, hence after any events, and that object is the
  body of every response to \<^verbatim>\<open>/__hud\<close>.
\<close>

theorem webpack_openConnections_constant:
  "obj_get (webpack_hud_object st now) ''openConnections'' = JNum 0 \<and>
   obj_get (webpack_hud_object (webpack_run infos st) now) ''openConnections'' = JNum 0 \<and>
   body (res_out (hudDevServerMiddleware h st now \<lparr>url = ''/__hud''\<rparr> res))
     = Some (json_stringify h (JObj (webpack_hud_object st now)))"
  by (simp add: webpack_hud_object_fields hudDevServerMiddleware_def res_end_def
      setHeader_def)

subsection \<open>Detection\<close>

lemma try_catch_Inr: "try_catch b (Inr d) = Inr (case b of Inl e \<Rightarrow> d | Inr v \<Rightarrow> v)"
  by (simp add: try_catch_def split: sum.splits)

lemma obj_get_spread2:
  "obj_get (js_spread2 a b) k =
     (case map_of (own_props b) k of None \<Rightarrow> obj_get (own_props a) k | Some v \<Rightarrow> v)"
  by (simp add: obj_get_def js_spread2_def merge_conv' map_add_def split: option.splits)

lemma vite_framework_of_first_marker:
  "vite_framework_of deps = first_marker vite_markers ''vite'' deps"
  by (simp add: vite_framework_of_def first_marker_def vite_markers_def declared_def)

lemma webpack_framework_of_first_marker:
  "webpack_framework_of deps = first_marker webpack_markers ''webpack'' deps"
  by (simp add: webpack_framework_of_def first_marker_def webpack_markers_def declared_def)

lemma manifest_deps_Inr:
  assumes "fs_read h (path_resolve h rootDir ''package.json'') = Some txt"
    and "json_parse h txt = Some pkg"
    and "js_get pkg ''dependencies'' = Inr d"
    and "js_get pkg ''devDependencies'' = Inr dd"
  shows "manifest_deps h rootDir = Inr (js_spread2 d dd)"
  using assms by (simp add: manifest_deps_def readFileSync_def JSON_parse_def)

lemma manifest_deps_unreadable:
  "fs_read h (path_resolve h rootDir ''package.json'') = None \<Longrightarrow>
   manifest_deps h rootDir = Inl FsError"
  by (simp add: manifest_deps_def readFileSync_def)

lemma manifest_deps_unparsable:
  "fs_read h (path_resolve h rootDir ''package.json'') = Some txt \<Longrightarrow>
   json_parse h txt = None \<Longrightarrow> manifest_deps h rootDir = Inl SyntaxError"
  by (simp add: manifest_deps_def readFileSync_def JSON_parse_def)

lemma manifest_deps_null:
  "fs_read h (path_resolve h rootDir ''package.json'') = Some txt \<Longrightarrow>
   json_parse h txt = Some JNull \<Longrightarrow> manifest_deps h rootDir = Inl TypeError"
  by (simp add: manifest_deps_def readFileSync_def JSON_parse_def)

lemma detectFramework_of_error:
  "manifest_deps h rootDir = Inl e \<Longrightarrow>
   vite_detectFramework h rootDir = Inr \<lparr>name = ''vite'', version = JStr ''--''\<rparr> \<and>
   webpack_detectFramework h rootDir = Inr \<lparr>name = ''webpack'', version = JStr ''--''\<rparr>"
  by (simp add: vite_detectFramework_def webpack_detectFramework_def try_catch_def)

lemma first_readable_manager_none:
  "\<forall>f \<in> set lock_files. fs_read h (path_resolve h rootDir f) = None \<Longrightarrow>
   first_readable_manager h rootDir = ''npm''"
  by (simp add: first_readable_manager_def lockfile_priority_def lockfile_readable_def
      lock_files_def)

lemma detectPackageManager_Inr:
  "vite_detectPackageManager h rootDir = Inr (first_readable_manager h rootDir)"
  "webpack_detectPackageManager h rootDir = Inr (first_readable_manager h rootDir)"
  unfolding vite_detectPackageManager_def webpack_detectPackageManager_def
    detectPackageManager_loop_0 try_catch_def
  by simp_all

subsection \<open>Framework detection\<close>

text \<open>
  C4, as the code has it. When \<^verbatim>\<open>package.json\<close> reads and parses to a value \<open>pkg\<close>
  other than \<^verbatim>\<open>null\<close>, and \<open>deps\<close> is the spread of its \<^verbatim>\<open>dependencies\<close> and
  \<^verbatim>\<open>devDependencies\<close> (an entry of the latter overriding one of the former), each
  variant returns the first marker of its own order whose entry in \<open>deps\<close> is truthy,
  with that entry as version, and its build-tool name with version \<^verbatim>\<open>'--'\<close> when no
  marker has a truthy entry. Hence in the Vite variant a truthy \<^verbatim>\<open>@sveltejs/kit\<close>,
  \<^verbatim>\<open>nuxt\<close> or \<^verbatim>\<open>next\<close> entry is reported whatever entries \<^verbatim>\<open>vue\<close> and \<^verbatim>\<open>react\<close>
  have, and in the Webpack variant a truthy \<^verbatim>\<open>react-scripts\<close> or \<^verbatim>\<open>next\<close> entry is;
  the Webpack variant has no marker for \<^verbatim>\<open>nuxt\<close> or \<^verbatim>\<open>@sveltejs/kit\<close>.
\<close>

theorem detectFramework_first_declared_marker:
  assumes "fs_read h (path_resolve h rootDir ''package.json'') = Some txt"
    and "json_parse h txt = Some pkg"
    and "js_get pkg ''dependencies'' = Inr d"
    and "js_get pkg ''devDependencies'' = Inr dd"
    and "deps = js_spread2 d dd"
  shows
    "vite_detectFramework h rootDir = Inr (first_marker vite_markers ''vite'' deps) \<and>
     webpack_detectFramework h rootDir = Inr (first_marker webpack_markers ''webpack'' deps) \<and>
     (\<forall>k. obj_get deps k =
        (case map_of (own_props dd) k of None \<Rightarrow> obj_get (own_props d) k | Some v \<Rightarrow> v)) \<and>
     (declared deps ''@sveltejs/kit'' \<or> declared deps ''nuxt'' \<or> declared deps ''next'' \<longrightarrow>
        name (first_marker vite_markers ''vite'' deps) \<in> {''sveltekit'', ''nuxt'', ''nextjs''}) \<and>
     (declared deps ''react-scripts'' \<or> declared deps ''next'' \<longrightarrow>
        name (first_marker webpack_markers ''webpack'' deps) \<in> {''cra'', ''nextjs''}) \<and>
     ((\<forall>k \<in> set (map fst vite_markers). \<not> declared deps k) \<longrightarrow>
        first_marker vite_markers ''vite'' deps = \<lparr>name = ''vite'', version = JStr ''--''\<rparr>) \<and>
     ((\<forall>k \<in> set (map fst webpack_markers). \<not> declared deps k) \<longrightarrow>
        first_marker webpack_markers ''webpack'' deps
          = \<lparr>name = ''webpack'', version = JStr ''--''\<rparr>)"
proof -
  have m: "manifest_deps h rootDir = Inr deps"
    using assms by (simp add: manifest_deps_Inr)
  have a: "vite_detectFramework h rootDir = Inr (first_marker vite_markers ''vite'' deps)"
    by (simp add: vite_detectFramework_def m try_catch_def vite_framework_of_first_marker)
  have b: "webpack_detectFramework h rootDir
             = Inr (first_marker webpack_markers ''webpack'' deps)"
    by (simp add: webpack_detectFramework_def m try_catch_def
        webpack_framework_of_first_marker)
  have c: "\<forall>k. obj_get deps k =
        (case map_of (own_props dd) k of None \<Rightarrow> obj_get (own_props d) k | Some v \<Rightarrow> v)"
    by (simp add: assms(5) obj_get_spread2)
  have d: "declared deps ''@sveltejs/kit'' \<or> declared deps ''nuxt'' \<or> declared deps ''next'' \<longrightarrow>
        name (first_marker vite_markers ''vite'' deps) \<in> {''sveltekit'', ''nuxt'', ''nextjs''}"
    by (simp add: first_marker_def vite_markers_def)
  have e: "declared deps ''react-scripts'' \<or> declared deps ''next'' \<longrightarrow>
        name (first_marker webpack_markers ''webpack'' deps) \<in> {''cra'', ''nextjs''}"
    by (simp add: first_marker_def webpack_markers_def)
  have f: "(\<forall>k \<in> set (map fst vite_markers). \<not> declared deps k) \<longrightarrow>
        first_marker vite_markers ''vite'' deps = \<lparr>name = ''vite'', version = JStr ''--''\<rparr>"
    by (simp add: first_marker_def vite_markers_def)
  have g: "(\<forall>k \<in> set (map fst webpack_markers). \<not> declared deps k) \<longrightarrow>
        first_marker webpack_markers ''webpack'' deps
          = \<lparr>name = ''webpack'', version = JStr ''--''\<rparr>"
    by (simp add: first_marker_def webpack_markers_def)
  from a b c d e f g show ?thesis by blast
qed

theorem detectFramework_first_declared_marker_witness:
  "fs_read next_project (path_resolve next_project ''/app'' ''package.json'')
     = Some ''next manifest'' \<and>
   json_parse next_project ''next manifest'' = Some next_manifest \<and>
   js_get next_manifest ''dependencies''
     = Inr (JObj [(''next'', JStr ''14.1.0''), (''react'', JStr ''^18.2.0'')]) \<and>
   js_get next_manifest ''devDependencies'' = Inr (JObj [(''react'', JStr ''^18.3.0'')]) \<and>
   declared (js_spread2 (JObj [(''next'', JStr ''14.1.0''), (''react'', JStr ''^18.2.0'')])
                        (JObj [(''react'', JStr ''^18.3.0'')])) ''next'' \<and>
   obj_get (js_spread2 (JObj [(''next'', JStr ''14.1.0''), (''react'', JStr ''^18.2.0'')])
                       (JObj [(''react'', JStr ''^18.3.0'')])) ''react'' = JStr ''^18.3.0'' \<and>
   vite_detectFramework next_project ''/app''
     = Inr \<lparr>name = ''nextjs'', version = JStr ''14.1.0''\<rparr> \<and>
   webpack_detectFramework next_project ''/app''
     = Inr \<lparr>name = ''nextjs'', version = JStr ''14.1.0''\<rparr>"
proof -
  let ?d = "JObj [(''next'', JStr ''14.1.0''), (''react'', JStr ''^18.2.0'')]"
  let ?dd = "JObj [(''react'', JStr ''^18.3.0'')]"
  have h1: "fs_read next_project (path_resolve next_project ''/app'' ''package.json'')
              = Some ''next manifest''"
    by (simp add: next_project_def project_host_def)
  have h2: "json_parse next_project ''next manifest'' = Some next_manifest"
    by (simp add: next_project_def project_host_def)
  have h3: "js_get next_manifest ''dependencies'' = Inr ?d"
    by (simp add: next_manifest_def obj_get_def)
  have h4: "js_get next_manifest ''devDependencies'' = Inr ?dd"
    by (simp add: next_manifest_def obj_get_def)
  have g1: "obj_get (js_spread2 ?d ?dd) ''next'' = JStr ''14.1.0''"
    unfolding obj_get_spread2 by (simp add: obj_get_def)
  have g2: "obj_get (js_spread2 ?d ?dd) ''react'' = JStr ''^18.3.0''"
    unfolding obj_get_spread2 by (simp add: obj_get_def)
  have g3: "obj_get (js_spread2 ?d ?dd) ''@sveltejs/kit'' = JUndefined"
    unfolding obj_get_spread2 by (simp add: obj_get_def)
  have g4: "obj_get (js_spread2 ?d ?dd) ''nuxt'' = JUndefined"
    unfolding obj_get_spread2 by (simp add: obj_get_def)
  have g5: "obj_get (js_spread2 ?d ?dd) ''react-scripts'' = JUndefined"
    unfolding obj_get_spread2 by (simp add: obj_get_def)
  have fv: "first_marker vite_markers ''vite'' (js_spread2 ?d ?dd)
              = \<lparr>name = ''nextjs'', version = JStr ''14.1.0''\<rparr>"
    by (simp add: first_marker_def vite_markers_def declared_def g1 g3 g4)
  have fw: "first_marker webpack_markers ''webpack'' (js_spread2 ?d ?dd)
              = \<lparr>name = ''nextjs'', version = JStr ''14.1.0''\<rparr>"
    by (simp add: first_marker_def webpack_markers_def declared_def g1 g5)
  have dn: "declared (js_spread2 ?d ?dd) ''next''"
    by (simp add: declared_def g1)
  from detectFramework_first_declared_marker [OF h1 h2 h3 h4 refl] h1 h2 h3 h4 g2 fv fw dn
  show ?thesis by simp
qed

text \<open>
  C4 as stated fails: for a manifest that declares the meta-framework \<^verbatim>\<open>nuxt\<close> and
  its base library \<^verbatim>\<open>vue\<close>, the Webpack \<^verbatim>\<open>detectFramework\<close> reports \<^verbatim>\<open>vue\<close>, and
  so does the Vite one when \<^verbatim>\<open>nuxt\<close> is declared with the empty version string.
\<close>

theorem webpack_detectFramework_nuxt_counterexample:
  "webpack_detectFramework nuxt_project ''/app''
     = Inr \<lparr>name = ''vue'', version = JStr ''^3.4.0''\<rparr> \<and>
   vite_detectFramework unpinned_nuxt_project ''/app''
     = Inr \<lparr>name = ''vue'', version = JStr ''^3.4.0''\<rparr>"
  by (simp add: webpack_detectFramework_def vite_detectFramework_def manifest_deps_def
      readFileSync_def JSON_parse_def nuxt_project_def unpinned_nuxt_project_def
      project_host_def nuxt_manifest_def unpinned_nuxt_manifest_def obj_get_def
      js_spread2_def AList.merge_def webpack_framework_of_def vite_framework_of_def
      try_catch_def)

subsection \<open>Failing soft\<close>

text \<open>
  C8: both variants of \<^verbatim>\<open>detectFramework\<close> and \<^verbatim>\<open>detectPackageManager\<close> return a value
  on every host and project root and never throw. When \<^verbatim>\<open>package.json\<close> cannot be
  read, does not parse or parses to \<^verbatim>\<open>null\<close>, \<^verbatim>\<open>detectFramework\<close> returns the build-tool
  name with version \<^verbatim>\<open>'--'\<close>; when no lockfile can be read, \<^verbatim>\<open>detectPackageManager\<close>
  returns \<^verbatim>\<open>'npm'\<close>.
\<close>

theorem detection_never_throws:
  "(\<exists>fw. vite_detectFramework h rootDir = Inr fw) \<and>
   (\<exists>fw. webpack_detectFramework h rootDir = Inr fw) \<and>
   (\<exists>m. vite_detectPackageManager h rootDir = Inr m) \<and>
   (\<exists>m. webpack_detectPackageManager h rootDir = Inr m) \<and>
   (fs_read h (path_resolve h rootDir ''package.json'') = None \<or>
    (\<exists>txt. fs_read h (path_resolve h rootDir ''package.json'') = Some txt \<and>
           (json_parse h txt = None \<or> json_parse h txt = Some JNull)) \<longrightarrow>
      vite_detectFramework h rootDir = Inr \<lparr>name = ''vite'', version = JStr ''--''\<rparr> \<and>
      webpack_detectFramework h rootDir = Inr \<lparr>name = ''webpack'', version = JStr ''--''\<rparr>) \<and>
   ((\<forall>f \<in> set lock_files. fs_read h (path_resolve h rootDir f) = None) \<longrightarrow>
      vite_detectPackageManager h rootDir = Inr ''npm'' \<and>
      webpack_detectPackageManager h rootDir = Inr ''npm'')"
proof -
  have a: "\<exists>fw. vite_detectFramework h rootDir = Inr fw"
    by (simp add: vite_detectFramework_def try_catch_Inr)
  have b: "\<exists>fw. webpack_detectFramework h rootDir = Inr fw"
    by (simp add: webpack_detectFramework_def try_catch_Inr)
  have c: "\<exists>m. vite_detectPackageManager h rootDir = Inr m"
    by (simp add: detectPackageManager_Inr)
  have d: "\<exists>m. webpack_detectPackageManager h rootDir = Inr m"
    by (simp add: detectPackageManager_Inr)
  have e: "fs_read h (path_resolve h rootDir ''package.json'') = None \<or>
    (\<exists>txt. fs_read h (path_resolve h rootDir ''package.json'') = Some txt \<and>
           (json_parse h txt = None \<or> json_parse h txt = Some JNull)) \<longrightarrow>
      vite_detectFramework h rootDir = Inr \<lparr>name = ''vite'', version = JStr ''--''\<rparr> \<and>
      webpack_detectFramework h rootDir = Inr \<lparr>name = ''webpack'', version = JStr ''--''\<rparr>"
    using manifest_deps_unreadable [of h rootDir] manifest_deps_unparsable [of h rootDir]
      manifest_deps_null [of h rootDir] detectFramework_of_error [of h rootDir]
    by blast
  have f: "(\<forall>f \<in> set lock_files. fs_read h (path_resolve h rootDir f) = None) \<longrightarrow>
      vite_detectPackageManager h rootDir = Inr ''npm'' \<and>
      webpack_detectPackageManager h rootDir = Inr ''npm''"
    by (simp add: detectPackageManager_Inr first_readable_manager_none)
  from a b c d e f show ?thesis by blast
qed

theorem detection_never_throws_witness:
  "fs_read empty_project (path_resolve empty_project ''/app'' ''package.json'') = None \<and>
   fs_read empty_project (path_resolve empty_project ''/app'' ''bun.lockb'') = None \<and>
   fs_read empty_project (path_resolve empty_project ''/app'' ''yarn.lock'') = None \<and>
   fs_read empty_project (path_resolve empty_project ''/app'' ''pnpm-lock.yaml'') = None \<and>
   fs_read empty_project (path_resolve empty_project ''/app'' ''package-lock.json'') = None \<and>
   vite_detectFramework empty_project ''/app'' = Inr \<lparr>name = ''vite'', version = JStr ''--''\<rparr> \<and>
   webpack_detectFramework empty_project ''/app''
     = Inr \<lparr>name = ''webpack'', version = JStr ''--''\<rparr> \<and>
   vite_detectPackageManager empty_project ''/app'' = Inr ''npm'' \<and>
   webpack_detectPackageManager empty_project ''/app'' = Inr ''npm'' \<and>
   fs_read broken_project (path_resolve broken_project ''/app'' ''package.json'')
     = Some ''{ not json'' \<and>
   json_parse broken_project ''{ not json'' = None \<and>
   vite_detectFramework broken_project ''/app'' = Inr \<lparr>name = ''vite'', version = JStr ''--''\<rparr> \<and>
   webpack_detectFramework broken_project ''/app''
     = Inr \<lparr>name = ''webpack'', version = JStr ''--''\<rparr>"
proof -
  have e: "\<And>p. fs_read empty_project p = None"
    by (simp add: empty_project_def project_host_def)
  have b1: "fs_read broken_project (path_resolve broken_project ''/app'' ''package.json'')
              = Some ''{ not json''"
    by (simp add: broken_project_def project_host_def)
  have b2: "json_parse broken_project ''{ not json'' = None"
    by (simp add: broken_project_def project_host_def)
  from detection_never_throws [of empty_project "''/app''"]
    detection_never_throws [of broken_project "''/app''"] e b1 b2
  show ?thesis by auto
qed

subsection \<open>The endpoint\<close>

lemma vite_middleware_hud:
  "url req = ''/__hud'' \<Longrightarrow>
   vite_middleware h s now req res =
     \<lparr>res_out =
        res\<lparr>headers :=
              AList.update ''Cache-Control'' ''no-store''
                (AList.update ''Content-Type'' ''application/json'' (headers res)),
            body := Some (json_stringify h (JObj (vite_hud_object s now)))\<rparr>,
      next_called = False\<rparr>"
  by (simp add: vite_middleware_def res_end_def setHeader_def)

lemma hudDevServerMiddleware_hud:
  "url req = ''/__hud'' \<Longrightarrow>
   hudDevServerMiddleware h st now req res =
     \<lparr>res_out =
        res\<lparr>headers :=
              AList.update ''Cache-Control'' ''no-store''
                (AList.update ''Content-Type'' ''application/json'' (headers res)),
            body := Some (json_stringify h (JObj (webpack_hud_object st now)))\<rparr>,
      next_called = False\<rparr>"
  by (simp add: hudDevServerMiddleware_def res_end_def setHeader_def)

lemma hud_headers:
  "map_of (AList.update ''Cache-Control'' ''no-store''
             (AList.update ''Content-Type'' ''application/json'' hs)) ''Content-Type''
     = Some ''application/json''"
  "map_of (AList.update ''Cache-Control'' ''no-store''
             (AList.update ''Content-Type'' ''application/json'' hs)) ''Cache-Control''
     = Some ''no-store''"
  by (simp_all add: update_conv')

text \<open>
  C3, as the code has it. Both handlers compare \<^verbatim>\<open>req.url\<close> as a whole with
  \<^verbatim>\<open>/__hud\<close>, and neither assigns a status code. When \<^verbatim>\<open>req.url\<close> is exactly
  \<^verbatim>\<open>/__hud\<close> the handler leaves the status code of the response as it found it, sets
  \<^verbatim>\<open>Content-Type: application/json\<close> and \<^verbatim>\<open>Cache-Control: no-store\<close>, ends the response
  with the serialised object of exactly the four fields \<^verbatim>\<open>moduleCount\<close>,
  \<^verbatim>\<open>openConnections\<close>, \<^verbatim>\<open>errorCount\<close> and \<^verbatim>\<open>uptime\<close>, and does not call the next
  handler. For any other \<^verbatim>\<open>req.url\<close>, also one whose path is \<^verbatim>\<open>/__hud\<close> and which
  carries a query string, it leaves the response untouched and calls the next handler.
\<close>

theorem hud_middleware_dispatch:
  "(url req = ''/__hud'' \<longrightarrow>
      hud_reply h (vite_hud_object s now) res (vite_middleware h s now req res) \<and>
      hud_reply h (webpack_hud_object st now) res (hudDevServerMiddleware h st now req res)) \<and>
   (url req \<noteq> ''/__hud'' \<longrightarrow>
      passed_through res (vite_middleware h s now req res) \<and>
      passed_through res (hudDevServerMiddleware h st now req res)) \<and>
   map fst (vite_hud_object s now) = hud_fields \<and>
   map fst (webpack_hud_object st now) = hud_fields"
proof -
  have a: "url req = ''/__hud'' \<longrightarrow>
      hud_reply h (vite_hud_object s now) res (vite_middleware h s now req res)"
    by (simp add: vite_middleware_hud hud_reply_def hud_headers)
  have b: "url req = ''/__hud'' \<longrightarrow>
      hud_reply h (webpack_hud_object st now) res (hudDevServerMiddleware h st now req res)"
    by (simp add: hudDevServerMiddleware_hud hud_reply_def hud_headers)
  have c: "url req \<noteq> ''/__hud'' \<longrightarrow>
      passed_through res (vite_middleware h s now req res) \<and>
      passed_through res (hudDevServerMiddleware h st now req res)"
    by (simp add: vite_middleware_def hudDevServerMiddleware_def passed_through_def)
  have d: "map fst (vite_hud_object s now) = hud_fields"
    by (simp add: vite_hud_object_def hud_fields_def)
  have e: "map fst (webpack_hud_object st now) = hud_fields"
    by (simp add: webpack_hud_object_def hud_fields_def)
  from a b c d e show ?thesis by blast
qed

theorem hud_middleware_dispatch_witness:
  "url \<lparr>url = ''/__hud''\<rparr> = ''/__hud'' \<and>
   hud_reply nuxt_project (vite_hud_object (hudPlugin 0) 1500) new_response
     (vite_middleware nuxt_project (hudPlugin 0) 1500 \<lparr>url = ''/__hud''\<rparr> new_response) \<and>
   hud_reply nuxt_project (webpack_hud_object (webpack_init 0) 1500) new_response
     (hudDevServerMiddleware nuxt_project (webpack_init 0) 1500 \<lparr>url = ''/__hud''\<rparr>
        new_response) \<and>
   url \<lparr>url = ''/index.html''\<rparr> \<noteq> ''/__hud'' \<and>
   passed_through new_response
     (vite_middleware nuxt_project (hudPlugin 0) 1500 \<lparr>url = ''/index.html''\<rparr> new_response) \<and>
   passed_through new_response
     (hudDevServerMiddleware nuxt_project (webpack_init 0) 1500 \<lparr>url = ''/index.html''\<rparr>
        new_response)"
  using hud_middleware_dispatch
      [where req = "\<lparr>url = ''/__hud''\<rparr>" and res = new_response and h = nuxt_project
         and s = "hudPlugin 0" and st = "webpack_init 0" and now = 1500]
    hud_middleware_dispatch
      [where req = "\<lparr>url = ''/index.html''\<rparr>" and res = new_response and h = nuxt_project
         and s = "hudPlugin 0" and st = "webpack_init 0" and now = 1500]
  by simp

text \<open>
  C3 as stated fails twice. A request for \<^verbatim>\<open>/__hud?t=1\<close> has the path \<^verbatim>\<open>/__hud\<close>
  exactly, yet both handlers pass it through and write nothing. And a response that
  reaches the handler with status code 404 is ended with status code 404, since the
  handler sets none.
\<close>

theorem hud_middleware_path_counterexample:
  "request_path (url \<lparr>url = ''/__hud?t=1''\<rparr>) = ''/__hud'' \<and>
   passed_through new_response
     (vite_middleware nuxt_project (hudPlugin 0) 1500 \<lparr>url = ''/__hud?t=1''\<rparr> new_response) \<and>
   passed_through new_response
     (hudDevServerMiddleware nuxt_project (webpack_init 0) 1500 \<lparr>url = ''/__hud?t=1''\<rparr>
        new_response) \<and>
   body (res_out
     (vite_middleware nuxt_project (hudPlugin 0) 1500 \<lparr>url = ''/__hud?t=1''\<rparr> new_response))
     = None \<and>
   statusCode (res_out
     (vite_middleware nuxt_project (hudPlugin 0) 1500 \<lparr>url = ''/__hud''\<rparr>
        (new_response\<lparr>statusCode := 404\<rparr>))) = 404 \<and>
   statusCode (res_out
     (hudDevServerMiddleware nuxt_project (webpack_init 0) 1500 \<lparr>url = ''/__hud''\<rparr>
        (new_response\<lparr>statusCode := 404\<rparr>))) = 404"
  by (simp add: request_path_def vite_middleware_def hudDevServerMiddleware_def
      passed_through_def new_response_def res_end_def setHeader_def)

subsection \<open>The production guard\<close>

lemma configResolved_isServe:
  "configResolved h p cfg s = Inr s' \<Longrightarrow> isServe s' = (cfg_command cfg = ''serve'')"
  by (auto simp: configResolved_def split: sum.splits)

lemma load_not_serve:
  "\<not> isServe s \<Longrightarrow>
   load h s RESOLVED_VIRTUAL_MODULE_ID
     = Some (''export default '' @ json_stringify h EMPTY_DIAGNOSTICS @ '';'')"
  by (simp add: load_def)

text \<open>
  C2, as the code has it. In the Vite plugin, once \<^verbatim>\<open>configResolved\<close> has run for a
  command other than \<^verbatim>\<open>'serve'\<close>, and also before it has run at all, the virtual
  module is the export of the serialised \<^verbatim>\<open>EMPTY_DIAGNOSTICS\<close>. In the Webpack plugin,
  \<^verbatim>\<open>apply\<close> for a mode other than \<^verbatim>\<open>'development'\<close> returns the compiler as it was:
  no global is defined and the \<^verbatim>\<open>done\<close> hook is not tapped, so the channel is absent
  rather than an all-default object.
\<close>

theorem non_development_channel:
  "(cfg_command cfg \<noteq> ''serve'' \<and> configResolved h p cfg s = Inr s' \<longrightarrow>
      load h s' RESOLVED_VIRTUAL_MODULE_ID
        = Some (''export default '' @ json_stringify h EMPTY_DIAGNOSTICS @ '';'')) \<and>
   load h (hudPlugin now) RESOLVED_VIRTUAL_MODULE_ID
     = Some (''export default '' @ json_stringify h EMPTY_DIAGNOSTICS @ '';'') \<and>
   (options_mode c \<noteq> JStr ''development'' \<longrightarrow> HudWebpackPlugin_apply h p c = Inr c)"
proof -
  have a: "cfg_command cfg \<noteq> ''serve'' \<and> configResolved h p cfg s = Inr s' \<longrightarrow>
      load h s' RESOLVED_VIRTUAL_MODULE_ID
        = Some (''export default '' @ json_stringify h EMPTY_DIAGNOSTICS @ '';'')"
    using configResolved_isServe [of h p cfg s s'] load_not_serve [of s' h] by blast
  have b: "load h (hudPlugin now) RESOLVED_VIRTUAL_MODULE_ID
     = Some (''export default '' @ json_stringify h EMPTY_DIAGNOSTICS @ '';'')"
    by (simp add: load_not_serve hudPlugin_def)
  have c: "options_mode c \<noteq> JStr ''development'' \<longrightarrow> HudWebpackPlugin_apply h p c = Inr c"
    by (simp add: HudWebpackPlugin_apply_def)
  from a b c show ?thesis by blast
qed

lemma nuxt_project_vite_framework:
  "vite_detectFramework nuxt_project ''/app''
     = Inr \<lparr>name = ''nuxt'', version = JStr ''^3.11.0''\<rparr>"
  by (simp add: vite_detectFramework_def manifest_deps_def readFileSync_def JSON_parse_def
      nuxt_project_def project_host_def nuxt_manifest_def obj_get_def js_spread2_def
      AList.merge_def vite_framework_of_def try_catch_def)

lemma nuxt_project_manager:
  "first_readable_manager nuxt_project ''/app'' = ''yarn''"
  by (simp add: first_readable_manager_def lockfile_priority_def lockfile_readable_def
      nuxt_project_def project_host_def)

lemma configResolved_build_example:
  "configResolved nuxt_project node_process build_config (hudPlugin 0) = Inr nuxt_build_state"
proof -
  have r: "cfg_root build_config = ''/app''"
    by (simp add: build_config_def)
  have d: "vite_diagnostics nuxt_project node_process build_config
             = Inr (diagnostics nuxt_build_state)"
    unfolding vite_diagnostics_def r nuxt_project_vite_framework
      detectPackageManager_Inr nuxt_project_manager
    by (simp add: version_replace_def build_config_def node_process_def detectRuntime_def
        js_or_def fromEntries_def string_aliases_def nuxt_build_state_def)
  show ?thesis
    unfolding configResolved_def d
    by (simp add: nuxt_build_state_def hudPlugin_def build_config_def)
qed

theorem non_development_channel_witness:
  "cfg_command build_config \<noteq> ''serve'' \<and>
   configResolved nuxt_project node_process build_config (hudPlugin 0) = Inr nuxt_build_state \<and>
   load nuxt_project nuxt_build_state RESOLVED_VIRTUAL_MODULE_ID
     = Some (''export default '' @ json_stringify nuxt_project EMPTY_DIAGNOSTICS @ '';'') \<and>
   options_mode production_compiler \<noteq> JStr ''development'' \<and>
   HudWebpackPlugin_apply nuxt_project node_process production_compiler
     = Inr production_compiler"
proof -
  have c: "cfg_command build_config \<noteq> ''serve''"
    by (simp add: build_config_def)
  have m: "options_mode production_compiler \<noteq> JStr ''development''"
    by (simp add: production_compiler_def)
  from non_development_channel
         [where cfg = build_config and h = nuxt_project and p = node_process
            and s = "hudPlugin 0" and s' = nuxt_build_state and c = production_compiler]
       configResolved_build_example c m
  show ?thesis by blast
qed

text \<open>
  C2 as stated fails in the Webpack variant: applied to a compiler in production mode
  the plugin defines no \<^verbatim>\<open>__HUD_DIAGNOSTICS__\<close> global at all; the channel is absent, not
  an all-default object.
\<close>

theorem webpack_production_channel_counterexample:
  "options_mode production_compiler \<noteq> JStr ''development'' \<and>
   HudWebpackPlugin_apply nuxt_project node_process production_compiler
     = Inr production_compiler \<and>
   map_of (definitions production_compiler) ''__HUD_DIAGNOSTICS__'' = None"
  by (simp add: HudWebpackPlugin_apply_def production_compiler_def)

end
